theory Spec2Isabelle
  imports Main "HOL-Library.Word"
begin

unbundle bit_operations_syntax

section \<open>Go values used by the adapter\<close>

text \<open>
  A Go call either returns or panics (a slice expression out of range panics at run time).
\<close>

datatype 'a go = Returns 'a | Panics

text \<open>
  \<^verbatim>\<open>syscall.Errno\<close>: 0 is success, \<^verbatim>\<open>syscall.ENOENT\<close> is 2. The constants of the
  \<^verbatim>\<open>fuse\<close> package are the Linux ones: \<^verbatim>\<open>S_IFREG = 0100000\<close>, \<^verbatim>\<open>S_IFDIR = 040000\<close>,
  \<^verbatim>\<open>FOPEN_KEEP_CACHE = 1 << 1\<close>; the permission bits are octal in the source: 0444 is \<open>0x124\<close> and
  0555 is \<open>0x16D\<close>. \<^verbatim>\<open>S_IFMT = 0170000\<close> masks the file type of a mode.
\<close>

type_synonym Errno = nat

definition ENOENT :: Errno where
  "ENOENT = 2"

definition S_IFREG :: "32 word" where
  "S_IFREG = 0x8000"

definition S_IFDIR :: "32 word" where
  "S_IFDIR = 0x4000"

definition S_IFMT :: "32 word" where
  "S_IFMT = 0xF000"

definition FOPEN_KEEP_CACHE :: "32 word" where
  "FOPEN_KEEP_CACHE = 2"

subsection \<open>The functions of package \<^verbatim>\<open>strings\<close> the adapter calls\<close>

text \<open>
  \<^verbatim>\<open>strings.Split(s, sep)\<close> for a one-byte separator: the pieces of \<open>s\<close> between the
  occurrences of the separator, in order; a string without the separator (also the empty
  string) gives the one-element list \<open>[s]\<close>. A byte that is not the separator goes
  in front of the first piece of the rest; the result is never empty, so the first case
  of the inner distinction does not occur.
\<close>

fun Split :: "string \<Rightarrow> char \<Rightarrow> string list" where
  "Split [] c = [[]]"
| "Split (x # xs) c =
     (if x = c then [] # Split xs c
      else (case Split xs c of
              [] \<Rightarrow> [[x]]
            | p # ps \<Rightarrow> (x # p) # ps))"

text \<open>\<^verbatim>\<open>strings.Trim(s, cutset)\<close> for a one-byte cutset: all leading and trailing
  occurrences of the byte are removed.\<close>

definition Trim :: "string \<Rightarrow> char \<Rightarrow> string" where
  "Trim s c = rev (dropWhile (\<lambda>x. x = c) (rev (dropWhile (\<lambda>x. x = c) s)))"

definition HasSuffix :: "string \<Rightarrow> string \<Rightarrow> bool" where
  "HasSuffix s suf =
     (length suf \<le> length s \<and> drop (length s - length suf) s = suf)"

subsection \<open>The identity hasher\<close>

text \<open>
  \<^verbatim>\<open>hashInode\<close> writes the bytes of the string into \<^verbatim>\<open>fnv.New64a()\<close> and returns
  \<^verbatim>\<open>Sum64()\<close>: the 64-bit FNV-1a hash. For every byte, in order, the state is XORed with the
  byte and multiplied (modulo \<open>2 ^ 64\<close>) by the FNV prime.
\<close>

definition offset64 :: "64 word" where
  "offset64 = 14695981039346656037"

definition prime64 :: "64 word" where
  "prime64 = 1099511628211"

fun fnv64a_Write :: "64 word \<Rightarrow> string \<Rightarrow> 64 word" where
  "fnv64a_Write h [] = h"
| "fnv64a_Write h (c # cs) = fnv64a_Write ((h XOR of_char c) * prime64) cs"

definition hashInode :: "string \<Rightarrow> 64 word" where
  "hashInode s = fnv64a_Write offset64 s"

section \<open>The gateway\<close>

text \<open>
  \<^verbatim>\<open>http.Get(url)\<close> either fails (a transport failure: the returned \<^verbatim>\<open>err\<close> is not nil) or
  gives a response. A response has a status code, which \<^verbatim>\<open>http.Get\<close> does not turn into an
  error, and a body; \<^verbatim>\<open>io.ReadAll(resp.Body)\<close> returns the bytes it has read (never a nil
  slice) and, when reading failed part-way, an error beside them: \<open>read_failed\<close>.

  The gateway is outside the program: \<open>gw k url\<close> is the outcome of the request for \<open>url\<close>
  issued after \<open>k\<close> earlier requests. The requests issued so far are kept in a log, so
  that "performs no fetch" is a statement about the log.
\<close>

datatype http_result =
    GetError
  | Response (status: nat) (body: string) (read_failed: bool)

type_synonym gateway = "nat \<Rightarrow> string \<Rightarrow> http_result"

type_synonym requests = "string list"

definition http_Get :: "gateway \<Rightarrow> requests \<Rightarrow> string \<Rightarrow> http_result \<times> requests" where
  "http_Get gw log url = (gw (length log) url, log @ [url])"

text \<open>
  \<^verbatim>\<open>goquery.NewDocumentFromReader\<close> followed by \<^verbatim>\<open>doc.Find("a")\<close> and, for each selected
  element, \<^verbatim>\<open>s.Attr("href")\<close> (the empty string when the attribute is missing) is the
  library's HTML parser: a parameter of the model, giving the \<^verbatim>\<open>href\<close> values of the
  anchors in document order, or \<open>None\<close> when the document cannot be built.
\<close>

type_synonym parser = "string \<Rightarrow> string list option"

section \<open>Directory nodes\<close>

record DirEntry =
  Ino :: "64 word"
  Name :: string
  Mode :: "32 word"

text \<open>The fields \<^verbatim>\<open>fs.Inode\<close> and \<^verbatim>\<open>mu\<close> belong to the binding and to locking; calls
  on one node are taken one at a time here. Debug logging prints and does nothing else.\<close>

record StorachaFS =
  cid :: string
  debug :: bool
  cache :: "DirEntry list"
  cached :: bool

definition NewStorachaFS :: "string \<Rightarrow> bool \<Rightarrow> StorachaFS" where
  "NewStorachaFS rootCID dbg = \<lparr>cid = rootCID, debug = dbg, cache = [], cached = False\<rparr>"

text \<open>The body of the closure \<^verbatim>\<open>Readdir\<close> passes to \<^verbatim>\<open>Each\<close>: called on one anchor, it
  returns early or appends one entry to \<^verbatim>\<open>entries\<close>.\<close>

definition readdir_anchor :: "string \<Rightarrow> string \<Rightarrow> DirEntry list \<Rightarrow> DirEntry list" where
  "readdir_anchor dcid href0 entries =
     (let href = hd (Split href0 CHR ''?'') in
      if href = [] \<or> href = ''../'' then entries
      else
        let parts = Split (Trim href CHR ''/'') CHR ''/'' in
        if length parts < 2 \<or> hd parts \<noteq> ''ipfs'' then entries
        else
          let name = last parts in
          if name = [] then entries
          else
            let isDir = HasSuffix href ''/'';
                mode = (if isDir then S_IFDIR OR 0x16D else S_IFREG OR 0x124)
            in entries @ [\<lparr>Ino = hashInode (dcid @ ''/'' @ name), Name = name, Mode = mode\<rparr>])"

fun Each :: "string \<Rightarrow> string list \<Rightarrow> DirEntry list \<Rightarrow> DirEntry list" where
  "Each dcid [] entries = entries"
| "Each dcid (h # hs) entries = Each dcid hs (readdir_anchor dcid h entries)"

text \<open>\<^verbatim>\<open>Readdir\<close> returns the stream (nil on failure) and the errno; the node and the
  request log are returned as the call leaves them.\<close>

definition Readdir ::
  "gateway \<Rightarrow> parser \<Rightarrow> StorachaFS \<Rightarrow> requests
     \<Rightarrow> (DirEntry list option \<times> Errno) \<times> StorachaFS \<times> requests" where
  "Readdir gw parse sfs log =
     (if cached sfs then ((Some (cache sfs), 0), sfs, log)
      else
        let url = ''https://storacha.link/ipfs/'' @ cid sfs @ ''/'';
            (resp, log') = http_Get gw log url
        in case resp of
             GetError \<Rightarrow> ((None, ENOENT), sfs, log')
           | Response st bdy rerr \<Rightarrow>
               if rerr then ((None, ENOENT), sfs, log')
               else
                 (case parse bdy of
                    None \<Rightarrow> ((None, ENOENT), sfs, log')
                  | Some hrefs \<Rightarrow>
                      let entries = Each (cid sfs) hrefs []
                      in ((Some entries, 0),
                          sfs\<lparr>cache := entries, cached := True\<rparr>, log')))"

text \<open>Directory attributes and file-system statistics: only the fields the source assigns.\<close>

record StatfsOut =
  Blocks :: "64 word"
  Bfree :: "64 word"
  Bavail :: "64 word"
  Bsize :: "32 word"
  Frsize :: "32 word"
  NameLen :: "32 word"

record AttrOut =
  attr_Mode :: "32 word"
  attr_Size :: "64 word"
  attr_Mtime :: "64 word"
  attr_Atime :: "64 word"
  attr_Ctime :: "64 word"

definition Getattr_dir :: "StorachaFS \<Rightarrow> AttrOut \<Rightarrow> AttrOut \<times> Errno" where
  "Getattr_dir sfs out = (out\<lparr>attr_Mode := S_IFDIR OR 0x16D\<rparr>, 0)"

definition Statfs :: "StorachaFS \<Rightarrow> StatfsOut \<Rightarrow> StatfsOut \<times> Errno" where
  "Statfs sfs out =
     (out\<lparr>Blocks := 1000000000, Bfree := 1000000000, Bavail := 1000000000,
          Bsize := 4096, Frsize := 4096, NameLen := 255\<rparr>, 0)"

section \<open>File nodes\<close>

text \<open>\<^verbatim>\<open>data\<close> is a byte slice that is nil until a fetch stores one: \<open>None\<close> is nil, and
  \<open>Some []\<close> is the empty, non-nil slice \<^verbatim>\<open>io.ReadAll\<close> returns for an empty body.\<close>

record StorachaFile =
  name :: string
  file_cid :: string
  data :: "string option"
  file_debug :: bool

definition NewStorachaFile :: "string \<Rightarrow> string \<Rightarrow> bool \<Rightarrow> StorachaFile" where
  "NewStorachaFile nm c dbg = \<lparr>name = nm, file_cid = c, data = None, file_debug = dbg\<rparr>"

text \<open>\<^verbatim>\<open>len(sf.data)\<close>, which is 0 for the nil slice.\<close>

definition len_data :: "StorachaFile \<Rightarrow> nat" where
  "len_data sf = (case data sf of None \<Rightarrow> 0 | Some p \<Rightarrow> length p)"

text \<open>\<^verbatim>\<open>time.Now().Unix()\<close> is the parameter \<open>now\<close>, an \<^verbatim>\<open>int64\<close> converted to
  \<^verbatim>\<open>uint64\<close>.\<close>

definition Getattr :: "StorachaFile \<Rightarrow> AttrOut \<Rightarrow> int \<Rightarrow> AttrOut \<times> Errno" where
  "Getattr sf out now =
     (out\<lparr>attr_Mode := S_IFREG OR 0x124,
          attr_Size := of_nat (len_data sf),
          attr_Mtime := word_of_int now,
          attr_Atime := word_of_int now,
          attr_Ctime := word_of_int now\<rparr>, 0)"

text \<open>\<^verbatim>\<open>Open\<close> returns the file handle (the node itself, or nil), the open flags and the
  errno. The error of \<^verbatim>\<open>io.ReadAll\<close> is discarded by the source (\<^verbatim>\<open>data, _ :=\<close>).\<close>

definition Open ::
  "gateway \<Rightarrow> StorachaFile \<Rightarrow> requests
     \<Rightarrow> (32 word \<times> Errno) \<times> StorachaFile \<times> requests" where
  "Open gw sf log =
     (case data sf of
        None \<Rightarrow>
          (let url = ''https://storacha.link/ipfs/'' @ file_cid sf;
               (resp, log') = http_Get gw log url
           in case resp of
                GetError \<Rightarrow> ((0, ENOENT), sf, log')
              | Response st bdy rerr \<Rightarrow>
                  ((FOPEN_KEEP_CACHE, 0), sf\<lparr>data := Some bdy\<rparr>, log'))
      | Some p \<Rightarrow> ((FOPEN_KEEP_CACHE, 0), sf, log))"

text \<open>
  The slice expression \<^verbatim>\<open>s[lo:hi]\<close> panics unless \<open>0 \<le> lo \<le> hi \<le> cap(s)\<close>. \<^verbatim>\<open>Read\<close>
  only reaches it with \<open>hi \<le> len(s)\<close>, so the capacity beyond the length plays no part.
\<close>

definition slice :: "string \<Rightarrow> int \<Rightarrow> int \<Rightarrow> string go" where
  "slice s lo hi =
     (if 0 \<le> lo \<and> lo \<le> hi \<and> hi \<le> int (length s)
      then Returns (take (nat (hi - lo)) (drop (nat lo) s))
      else Panics)"

text \<open>
  \<^verbatim>\<open>Read\<close> gets the destination buffer, of which only the length is used, and the offset, an
  \<^verbatim>\<open>int64\<close>. The sum \<^verbatim>\<open>off + int64(len(dest))\<close> is only formed when \<open>off < len(sf.data)\<close>,
  and two slices in one address space have lengths whose sum is far below \<open>2 ^ 63\<close>, so
  the sum is the integer sum. The result is the byte sequence handed to
  \<^verbatim>\<open>fuse.ReadResultData\<close> (nil is the empty sequence) and the errno.
\<close>

definition Read :: "StorachaFile \<Rightarrow> nat \<Rightarrow> int \<Rightarrow> (string \<times> Errno) go" where
  "Read sf len_dest off =
     (if off \<ge> int (len_data sf) then Returns ([], 0)
      else
        let end0 = off + int len_dest;
            end1 = (if end0 > int (len_data sf) then int (len_data sf) else end0)
        in case slice (case data sf of None \<Rightarrow> [] | Some p \<Rightarrow> p) off end1 of
             Panics \<Rightarrow> Panics
           | Returns bs \<Rightarrow> Returns (bs, 0))"

section \<open>Lookup\<close>

text \<open>The node \<^verbatim>\<open>Lookup\<close> builds for the child, and the inode it returns:
  \<^verbatim>\<open>NewPersistentInode\<close> with the node and its \<^verbatim>\<open>fs.StableAttr\<close>.\<close>

datatype node = DirNode StorachaFS | FileNode StorachaFile

record Inode =
  ops :: node
  stable_Mode :: "32 word"
  stable_Ino :: "64 word"

text \<open>The body of the closure \<^verbatim>\<open>Lookup\<close> passes to \<^verbatim>\<open>EachWithBreak\<close>: it may assign
  \<^verbatim>\<open>childCID\<close> and \<^verbatim>\<open>isDir\<close>, and returns whether the iteration goes on.\<close>

definition lookup_anchor ::
  "string \<Rightarrow> string \<Rightarrow> string \<times> bool \<Rightarrow> (string \<times> bool) \<times> bool" where
  "lookup_anchor nm href0 st =
     (let href = hd (Split href0 CHR ''?'') in
      if HasSuffix href (''/'' @ nm) \<or> href = nm then
        let parts = Split (Trim href CHR ''/'') CHR ''/'' in
        if length parts \<ge> 2 \<and> hd parts = ''ipfs''
        then ((parts ! 1, HasSuffix href ''/''), False)
        else (st, True)
      else (st, True))"

fun EachWithBreak :: "string \<Rightarrow> string list \<Rightarrow> string \<times> bool \<Rightarrow> string \<times> bool" where
  "EachWithBreak nm [] st = st"
| "EachWithBreak nm (h # hs) st =
     (case lookup_anchor nm h st of
        (st', continue) \<Rightarrow> if continue then EachWithBreak nm hs st' else st')"

text \<open>\<^verbatim>\<open>Lookup\<close> returns the child inode (nil on failure) and the errno. It assigns no field
  of the directory node, so only the request log is returned beside the result. The
  source passes \<^verbatim>\<open>childCID\<close> as the first and \<^verbatim>\<open>name\<close> as the second argument of
  \<^verbatim>\<open>NewStorachaFile(name, cid, debug)\<close>.\<close>

definition Lookup ::
  "gateway \<Rightarrow> parser \<Rightarrow> StorachaFS \<Rightarrow> string \<Rightarrow> requests
     \<Rightarrow> (Inode option \<times> Errno) \<times> requests" where
  "Lookup gw parse sfs nm log =
     (let dirURL = ''https://storacha.link/ipfs/'' @ cid sfs @ ''/'';
          (resp, log') = http_Get gw log dirURL
      in case resp of
           GetError \<Rightarrow> ((None, ENOENT), log')
         | Response st bdy rerr \<Rightarrow>
             if rerr then ((None, ENOENT), log')
             else
               (case parse bdy of
                  None \<Rightarrow> ((None, ENOENT), log')
                | Some hrefs \<Rightarrow>
                    let (childCID, isDir) = EachWithBreak nm hrefs ([], False) in
                    if childCID = [] then ((None, ENOENT), log')
                    else
                      let (mode, nd) =
                            (if isDir
                             then (S_IFDIR OR 0x16D, DirNode (NewStorachaFS childCID (debug sfs)))
                             else (S_IFREG OR 0x124,
                                   FileNode (NewStorachaFile childCID nm (debug sfs))));
                          ino = hashInode (childCID @ ''/'' @ nm)
                      in ((Some \<lparr>ops = nd, stable_Mode = mode, stable_Ino = ino\<rparr>, 0), log')))"

section \<open>Sequences of calls on one node\<close>

text \<open>The binding calls a node any number of times. A step takes the node and the request
  log to what the call leaves behind; the replies are given by the operations themselves.
  \<^verbatim>\<open>Lookup\<close>, \<^verbatim>\<open>Getattr\<close>, \<^verbatim>\<open>Statfs\<close> and \<^verbatim>\<open>Read\<close> assign no field of their node.\<close>

datatype dir_call = CallLookup string | CallReaddir | CallGetattr AttrOut | CallStatfs StatfsOut

fun dir_step ::
  "gateway \<Rightarrow> parser \<Rightarrow> StorachaFS \<times> requests \<Rightarrow> dir_call \<Rightarrow> StorachaFS \<times> requests" where
  "dir_step gw parse (sfs, log) (CallLookup nm) = (sfs, snd (Lookup gw parse sfs nm log))"
| "dir_step gw parse (sfs, log) CallReaddir = snd (Readdir gw parse sfs log)"
| "dir_step gw parse (sfs, log) (CallGetattr out) = (sfs, log)"
| "dir_step gw parse (sfs, log) (CallStatfs out) = (sfs, log)"

datatype file_call = FileGetattr AttrOut int | FileOpen | FileRead nat int

fun file_step ::
  "gateway \<Rightarrow> StorachaFile \<times> requests \<Rightarrow> file_call \<Rightarrow> StorachaFile \<times> requests" where
  "file_step gw (sf, log) (FileGetattr out now) = (sf, log)"
| "file_step gw (sf, log) FileOpen = snd (Open gw sf log)"
| "file_step gw (sf, log) (FileRead len_dest off) = (sf, log)"

section \<open>The anchor classification in the words of the specification\<close>

text \<open>
  The specification's algorithm for one hyperlink target: strip the trailing query
  component; skip the target if it is empty or the parent reference; trim the slashes
  and split on the slash; skip it if fewer than two segments remain or the first is not
  the object-access marker; the last segment is the child name, and the target (before
  trimming) ending in the separator marks a directory.
\<close>

definition strip_query :: "string \<Rightarrow> string" where
  "strip_query t = takeWhile (\<lambda>x. x \<noteq> CHR ''?'') t"

definition spec_classify :: "string \<Rightarrow> (string \<times> bool) option" where
  "spec_classify target =
     (let t = strip_query target in
      if t = [] \<or> t = ''../'' then None
      else
        let segs = Split (Trim t CHR ''/'') CHR ''/'' in
        if length segs < 2 \<or> hd segs \<noteq> ''ipfs'' then None
        else Some (last segs, HasSuffix t ''/''))"

text \<open>The descriptor a directory entry presents: its name, and whether the type bits of
  its mode say directory. \<open>entry_of\<close> is the entry the source builds from a descriptor.\<close>

definition descriptor :: "DirEntry \<Rightarrow> string \<times> bool" where
  "descriptor e = (Name e, Mode e AND S_IFMT = S_IFDIR)"

definition entry_of :: "string \<Rightarrow> string \<times> bool \<Rightarrow> DirEntry" where
  "entry_of dcid d =
     \<lparr>Ino = hashInode (dcid @ ''/'' @ fst d), Name = fst d,
      Mode = (if snd d then S_IFDIR OR 0x16D else S_IFREG OR 0x124)\<rparr>"

section \<open>What the scan of \<^verbatim>\<open>Lookup\<close> finds\<close>




section \<open>Concrete gateways for the examples\<close>

text \<open>A gateway that answers every request alike, and a stand-in for the HTML parser that
  reads one \<^verbatim>\<open>href\<close> per line of the body.\<close>

definition const_gateway :: "http_result \<Rightarrow> gateway" where
  "const_gateway r k url = r"

definition lines_parser :: parser where
  "lines_parser b = Some (Split b (CHR 0x0A))"

section \<open>Facts about the string functions\<close>

lemma Split_not_Nil: "Split s c \<noteq> []"
  by (induction s) (auto split: list.splits)

lemma hd_Split: "hd (Split s c) = takeWhile (\<lambda>x. x \<noteq> c) s"
  by (induction s) (auto split: list.splits simp: Split_not_Nil)

lemma Split_snoc_sep: "Split (xs @ [c]) c = Split xs c @ [[]]"
  by (induction xs) (auto split: list.splits simp: Split_not_Nil)

lemma Split_snoc_other:
  "y \<noteq> c \<Longrightarrow> Split (xs @ [y]) c = butlast (Split xs c) @ [last (Split xs c) @ [y]]"
proof (induction xs)
  case Nil
  then show ?case by simp
next
  case (Cons x xs)
  obtain p ps where sp: "Split xs c = p # ps"
    using Split_not_Nil[of xs c] by (cases "Split xs c") auto
  show ?case
  proof (cases "x = c")
    case True
    then show ?thesis using Cons sp by simp
  next
    case False
    then show ?thesis using Cons sp by (cases ps) auto
  qed
qed

lemma last_Split_Nil: "(last (Split s c) = []) = (s = [] \<or> last s = c)"
proof (cases s rule: rev_cases)
  case Nil
  then show ?thesis by simp
next
  case (snoc xs y)
  then show ?thesis
    by (cases "y = c") (simp_all add: Split_snoc_sep Split_snoc_other)
qed

lemma last_Trim: "Trim s c \<noteq> [] \<Longrightarrow> last (Trim s c) \<noteq> c"
proof -
  assume ne: "Trim s c \<noteq> []"
  let ?r = "dropWhile (\<lambda>x. x = c) (rev (dropWhile (\<lambda>x. x = c) s))"
  from ne have r: "?r \<noteq> []" by (simp add: Trim_def)
  then have "hd ?r \<noteq> c" using hd_dropWhile[of "\<lambda>x. x = c"] by blast
  moreover have "last (Trim s c) = hd ?r" using r by (simp add: Trim_def last_rev)
  ultimately show ?thesis by simp
qed

text \<open>The source's test \<^verbatim>\<open>name == ""\<close> never fires: after trimming, a target with two
  segments or more does not end in the separator.\<close>

lemma name_not_empty:
  assumes "2 \<le> length (Split (Trim h c) c)"
  shows "last (Split (Trim h c) c) \<noteq> []"
proof -
  from assms have "Trim h c \<noteq> []" by auto
  then show ?thesis using last_Trim[of h c] by (simp add: last_Split_Nil)
qed

section \<open>The listing loop\<close>

lemma descriptor_entry_of: "descriptor (entry_of dcid d) = d"
  by (cases d) (simp add: descriptor_def entry_of_def S_IFMT_def S_IFDIR_def S_IFREG_def)

lemma readdir_anchor_classify:
  "readdir_anchor dcid h entries =
     entries @ (case spec_classify h of None \<Rightarrow> [] | Some d \<Rightarrow> [entry_of dcid d])"
proof -
  define t where "t = hd (Split h CHR ''?'')"
  define segs where "segs = Split (Trim t CHR ''/'') CHR ''/''"
  have t': "strip_query h = t"
    by (simp add: t_def strip_query_def hd_Split)
  have src: "readdir_anchor dcid h entries =
      (if t = [] \<or> t = ''../'' then entries
       else if length segs < 2 \<or> hd segs \<noteq> ''ipfs'' then entries
       else if last segs = [] then entries
       else entries @ [entry_of dcid (last segs, HasSuffix t ''/'')])"
    unfolding readdir_anchor_def Let_def t_def[symmetric] segs_def[symmetric] entry_of_def
    by simp
  have spc: "spec_classify h =
      (if t = [] \<or> t = ''../'' then None
       else if length segs < 2 \<or> hd segs \<noteq> ''ipfs'' then None
       else Some (last segs, HasSuffix t ''/''))"
    unfolding spec_classify_def Let_def t' segs_def[symmetric]
    by simp
  have ne: "\<not> length segs < 2 \<Longrightarrow> last segs \<noteq> []"
    using name_not_empty[of t "CHR ''/''"] by (simp add: segs_def)
  show ?thesis
  proof (cases "t = [] \<or> t = ''../''")
    case True
    then show ?thesis unfolding src spc by simp
  next
    case out: False
    show ?thesis
    proof (cases "length segs < 2 \<or> hd segs \<noteq> ''ipfs''")
      case True
      then show ?thesis unfolding src spc using out by simp
    next
      case False
      then have "last segs \<noteq> []" using ne by blast
      then show ?thesis unfolding src spc using out False by simp
    qed
  qed
qed

lemma Each_classify:
  "Each dcid hs acc = acc @ map (entry_of dcid) (List.map_filter spec_classify hs)"
proof (induction hs arbitrary: acc)
  case Nil
  then show ?case by simp
next
  case (Cons h hs)
  then show ?case
    by (cases "spec_classify h") (simp_all add: readdir_anchor_classify)
qed

text \<open>
  C7. For every listing document, the entries \<^verbatim>\<open>Readdir\<close>'s loop builds, read as
  (name, is-directory) descriptors, are exactly the anchors the specification's
  classification keeps, in document order and with repetitions kept (the loop over a
  concatenation is the concatenation of the loops). The document with the anchors
  \<^verbatim>\<open>/ipfs/CID1/a.txt\<close>, \<^verbatim>\<open>/ipfs/CID2/sub/\<close>, \<^verbatim>\<open>../\<close> and one without the marker yields
  the two descriptors (a.txt, file) and (sub, directory); an anchor that occurs twice
  yields two entries.
\<close>

theorem anchors_classified:
  "map descriptor (Each dcid hrefs []) = List.map_filter spec_classify hrefs
   \<and> Each dcid (hrefs @ rest) [] = Each dcid hrefs [] @ Each dcid rest []
   \<and> map descriptor
        (Each dcid [''/ipfs/CID1/a.txt'', ''/ipfs/CID2/sub/'', ''../'', ''/files/CID3/b.txt''] [])
       = [(''a.txt'', False), (''sub'', True)]
   \<and> map descriptor (Each dcid [''/ipfs/CID1/a.txt'', ''/ipfs/CID1/a.txt''] [])
       = [(''a.txt'', False), (''a.txt'', False)]"
proof -
  have d: "map descriptor (map (entry_of dcid) ds) = ds" for ds
    by (induction ds) (simp_all add: descriptor_entry_of)
  have gen: "map descriptor (Each dcid hs []) = List.map_filter spec_classify hs" for hs
    by (simp add: Each_classify d del: map_map)
  have app: "Each dcid (hrefs @ rest) [] = Each dcid hrefs [] @ Each dcid rest []"
    by (simp add: Each_classify List.map_filter_def)
  have c1: "spec_classify ''/ipfs/CID1/a.txt'' = Some (''a.txt'', False)"
    by (simp add: spec_classify_def strip_query_def Trim_def HasSuffix_def)
  have c2: "spec_classify ''/ipfs/CID2/sub/'' = Some (''sub'', True)"
    by (simp add: spec_classify_def strip_query_def Trim_def HasSuffix_def)
  have c3: "spec_classify ''../'' = None"
    by (simp add: spec_classify_def strip_query_def)
  have c4: "spec_classify ''/files/CID3/b.txt'' = None"
    by (simp add: spec_classify_def strip_query_def Trim_def)
  have ex: "List.map_filter spec_classify
        [''/ipfs/CID1/a.txt'', ''/ipfs/CID2/sub/'', ''../'', ''/files/CID3/b.txt'']
      = [(''a.txt'', False), (''sub'', True)]"
    by (simp add: c1 c2 c3 c4)
  have dup: "List.map_filter spec_classify [''/ipfs/CID1/a.txt'', ''/ipfs/CID1/a.txt'']
      = [(''a.txt'', False), (''a.txt'', False)]"
    by (simp add: c1)
  show ?thesis
    unfolding gen ex dup using app by simp
qed

section \<open>Directory nodes: fetching and memoizing the listing\<close>

lemma Readdir_cached: "cached sfs \<Longrightarrow> Readdir gw parse sfs log = ((Some (cache sfs), 0), sfs, log)"
  by (simp add: Readdir_def)

lemma Readdir_success:
  assumes "Readdir gw parse sfs log = ((Some es, 0), sfs', log')"
  shows "cached sfs' \<and> cache sfs' = es"
  using assms
  by (auto simp: Readdir_def http_Get_def ENOENT_def Let_def
      split: if_splits http_result.splits option.splits)

lemma Readdir_log:
  "\<not> cached sfs \<Longrightarrow>
     snd (snd (Readdir gw parse sfs log)) = log @ [''https://storacha.link/ipfs/'' @ cid sfs @ ''/'']"
  by (auto simp: Readdir_def http_Get_def Let_def split: http_result.splits option.splits)



lemma dir_step_cached:
  "cached sfs \<Longrightarrow> fst (dir_step gw parse (sfs, log) call) = sfs"
  by (cases call) (simp_all add: Readdir_cached)

lemma dir_run_cached:
  "cached sfs \<Longrightarrow> fst (foldl (dir_step gw parse) (sfs, log) calls) = sfs"
proof (induction calls arbitrary: log)
  case Nil
  then show ?case by simp
next
  case (Cons call calls)
  obtain log' where st: "dir_step gw parse (sfs, log) call = (sfs, log')"
    using dir_step_cached[OF Cons.prems, of gw parse log call]
    by (cases "dir_step gw parse (sfs, log) call") simp
  show ?case using Cons.IH[OF Cons.prems, of log'] st by simp
qed

lemma Readdir_run_cached:
  "cached sfs \<Longrightarrow> foldl (dir_step gw parse) (sfs, log) (replicate n CallReaddir) = (sfs, log)"
  by (induction n) (simp_all add: Readdir_cached)

lemma Readdir_fetch_ok:
  assumes "\<not> cached sfs"
    and "gw (length log) (''https://storacha.link/ipfs/'' @ cid sfs @ ''/'') = Response st bdy False"
    and "parse bdy = Some hrefs"
  shows "Readdir gw parse sfs log =
     ((Some (Each (cid sfs) hrefs []), 0),
      sfs\<lparr>cache := Each (cid sfs) hrefs [], cached := True\<rparr>,
      log @ [''https://storacha.link/ipfs/'' @ cid sfs @ ''/''])"
  using assms by (simp add: Readdir_def http_Get_def Let_def)






text \<open>A directory whose listing document has the one anchor \<^verbatim>\<open>/ipfs/CID1/a.txt\<close>, behind
  a gateway that answers with any status \<open>st\<close>.\<close>

lemma ex_Readdir:
  "Readdir (const_gateway (Response st ''/ipfs/CID1/a.txt'' False)) lines_parser
      (NewStorachaFS ''Qroot'' False) []
   = ((Some [\<lparr>Ino = hashInode ''Qroot/a.txt'', Name = ''a.txt'', Mode = S_IFREG OR 0x124\<rparr>], 0),
      \<lparr>cid = ''Qroot'', debug = False,
        cache = [\<lparr>Ino = hashInode ''Qroot/a.txt'', Name = ''a.txt'', Mode = S_IFREG OR 0x124\<rparr>],
        cached = True\<rparr>,
      [''https://storacha.link/ipfs/Qroot/''])"
proof -
  have e: "Each ''Qroot'' [''/ipfs/CID1/a.txt''] []
      = [\<lparr>Ino = hashInode ''Qroot/a.txt'', Name = ''a.txt'', Mode = S_IFREG OR 0x124\<rparr>]"
    by (simp add: readdir_anchor_def Trim_def HasSuffix_def Let_def)
  show ?thesis
    using Readdir_fetch_ok[of "NewStorachaFS ''Qroot'' False"
        "const_gateway (Response st ''/ipfs/CID1/a.txt'' False)" "[]" st "''/ipfs/CID1/a.txt''"
        lines_parser "[''/ipfs/CID1/a.txt'']"] e
    by (simp add: NewStorachaFS_def const_gateway_def lines_parser_def)
qed

lemma ex_scan: "EachWithBreak ''a.txt'' [''/ipfs/CID1/a.txt''] ([], False) = (''CID1'', False)"
  by (simp add: lookup_anchor_def Trim_def HasSuffix_def)

lemma ex_Lookup:
  "Lookup (const_gateway (Response st ''/ipfs/CID1/a.txt'' False)) lines_parser
      \<lparr>cid = ''Qroot'', debug = False, cache = c, cached = b\<rparr> ''a.txt'' log
   = ((Some \<lparr>ops = FileNode (NewStorachaFile ''CID1'' ''a.txt'' False),
             stable_Mode = S_IFREG OR 0x124, stable_Ino = hashInode ''CID1/a.txt''\<rparr>, 0),
      log @ [''https://storacha.link/ipfs/Qroot/''])"
  by (simp add: Lookup_def http_Get_def const_gateway_def lines_parser_def ex_scan Let_def
      del: EachWithBreak.simps)

lemma ex_Lookup_fresh:
  "Lookup (const_gateway (Response st ''/ipfs/CID1/a.txt'' False)) lines_parser
      (NewStorachaFS ''Qroot'' False) ''a.txt'' log
   = ((Some \<lparr>ops = FileNode (NewStorachaFile ''CID1'' ''a.txt'' False),
             stable_Mode = S_IFREG OR 0x124, stable_Ino = hashInode ''CID1/a.txt''\<rparr>, 0),
      log @ [''https://storacha.link/ipfs/Qroot/''])"
  unfolding NewStorachaFS_def by (rule ex_Lookup)

text \<open>
  C6. \<^verbatim>\<open>Readdir\<close> is idempotent after its first success. On a node whose listing is loaded
  it returns the memoized listing and issues no request. When a call succeeds with the
  sequence \<open>es\<close>, the node it leaves has \<open>es\<close> memoized, every later call (whatever the
  gateway would answer then) returns the same \<open>es\<close> and leaves node and log as they
  are, and no sequence of calls on the node changes it again. When that first call had
  to load the listing it issued exactly one request, and any number of calls from the
  fresh node issue that one request in total.
\<close>

theorem Readdir_idempotent:
  "(cached sfs \<longrightarrow> Readdir gw parse sfs log = ((Some (cache sfs), 0), sfs, log))
   \<and> (Readdir gw parse sfs log = ((Some es, 0), sfs', log') \<longrightarrow>
        cached sfs' \<and> cache sfs' = es
        \<and> Readdir gw2 parse2 sfs' log2 = ((Some es, 0), sfs', log2)
        \<and> fst (foldl (dir_step gw2 parse2) (sfs', log2) calls) = sfs')
   \<and> (\<not> cached sfs \<and> Readdir gw parse sfs log = ((Some es, 0), sfs', log') \<longrightarrow>
        log' = log @ [''https://storacha.link/ipfs/'' @ cid sfs @ ''/'']
        \<and> foldl (dir_step gw parse) (sfs, log) (replicate (Suc n) CallReaddir)
            = (sfs', log @ [''https://storacha.link/ipfs/'' @ cid sfs @ ''/'']))"
proof (intro conjI impI)
  assume "cached sfs"
  then show "Readdir gw parse sfs log = ((Some (cache sfs), 0), sfs, log)"
    by (rule Readdir_cached)
next
  assume r: "Readdir gw parse sfs log = ((Some es, 0), sfs', log')"
  from Readdir_success[OF r] show "cached sfs'" and "cache sfs' = es" by simp_all
  from Readdir_success[OF r] show "Readdir gw2 parse2 sfs' log2 = ((Some es, 0), sfs', log2)"
    using Readdir_cached[of sfs' gw2 parse2 log2] by simp
  from Readdir_success[OF r] show "fst (foldl (dir_step gw2 parse2) (sfs', log2) calls) = sfs'"
    using dir_run_cached by blast
next
  assume a: "\<not> cached sfs \<and> Readdir gw parse sfs log = ((Some es, 0), sfs', log')"
  then show l: "log' = log @ [''https://storacha.link/ipfs/'' @ cid sfs @ ''/'']"
    using Readdir_log[of sfs gw parse log] by simp
  from a have c: "cached sfs'" using Readdir_success by blast
  show "foldl (dir_step gw parse) (sfs, log) (replicate (Suc n) CallReaddir)
            = (sfs', log @ [''https://storacha.link/ipfs/'' @ cid sfs @ ''/''])"
    using a l Readdir_run_cached[OF c, of gw parse log' n] by simp
qed

theorem Readdir_idempotent_witness:
  "Readdir (const_gateway (Response 200 ''/ipfs/CID1/a.txt'' False)) lines_parser
      (NewStorachaFS ''Qroot'' False) []
     = ((Some [\<lparr>Ino = hashInode ''Qroot/a.txt'', Name = ''a.txt'', Mode = S_IFREG OR 0x124\<rparr>], 0),
        \<lparr>cid = ''Qroot'', debug = False,
          cache = [\<lparr>Ino = hashInode ''Qroot/a.txt'', Name = ''a.txt'', Mode = S_IFREG OR 0x124\<rparr>],
          cached = True\<rparr>,
        [''https://storacha.link/ipfs/Qroot/''])
   \<and> Readdir (const_gateway GetError) lines_parser
        \<lparr>cid = ''Qroot'', debug = False,
          cache = [\<lparr>Ino = hashInode ''Qroot/a.txt'', Name = ''a.txt'', Mode = S_IFREG OR 0x124\<rparr>],
          cached = True\<rparr>
        [''https://storacha.link/ipfs/Qroot/'']
     = ((Some [\<lparr>Ino = hashInode ''Qroot/a.txt'', Name = ''a.txt'', Mode = S_IFREG OR 0x124\<rparr>], 0),
        \<lparr>cid = ''Qroot'', debug = False,
          cache = [\<lparr>Ino = hashInode ''Qroot/a.txt'', Name = ''a.txt'', Mode = S_IFREG OR 0x124\<rparr>],
          cached = True\<rparr>,
        [''https://storacha.link/ipfs/Qroot/''])
   \<and> foldl (dir_step (const_gateway (Response 200 ''/ipfs/CID1/a.txt'' False)) lines_parser)
        (NewStorachaFS ''Qroot'' False, []) (replicate (Suc 1) CallReaddir)
     = (\<lparr>cid = ''Qroot'', debug = False,
          cache = [\<lparr>Ino = hashInode ''Qroot/a.txt'', Name = ''a.txt'', Mode = S_IFREG OR 0x124\<rparr>],
          cached = True\<rparr>,
        [''https://storacha.link/ipfs/Qroot/''])
   \<and> fst (foldl (dir_step (const_gateway GetError) lines_parser)
        (\<lparr>cid = ''Qroot'', debug = False,
           cache = [\<lparr>Ino = hashInode ''Qroot/a.txt'', Name = ''a.txt'', Mode = S_IFREG OR 0x124\<rparr>],
           cached = True\<rparr>,
         [''https://storacha.link/ipfs/Qroot/''])
        [CallLookup ''a.txt'', CallReaddir])
     = \<lparr>cid = ''Qroot'', debug = False,
         cache = [\<lparr>Ino = hashInode ''Qroot/a.txt'', Name = ''a.txt'', Mode = S_IFREG OR 0x124\<rparr>],
         cached = True\<rparr>"
proof -
  let ?gw = "const_gateway (Response 200 ''/ipfs/CID1/a.txt'' False)"
  let ?es = "[\<lparr>Ino = hashInode ''Qroot/a.txt'', Name = ''a.txt'', Mode = S_IFREG OR 0x124\<rparr>]"
  let ?d = "\<lparr>cid = ''Qroot'', debug = False, cache = ?es, cached = True\<rparr>"
  have fresh: "\<not> cached (NewStorachaFS ''Qroot'' False)"
    and c: "cid (NewStorachaFS ''Qroot'' False) = ''Qroot''"
    by (simp_all add: NewStorachaFS_def)
  have r: "Readdir ?gw lines_parser (NewStorachaFS ''Qroot'' False) []
      = ((Some ?es, 0), ?d, [''https://storacha.link/ipfs/Qroot/''])"
    by (rule ex_Readdir)
  show ?thesis
    using r fresh c
      Readdir_idempotent[of "NewStorachaFS ''Qroot'' False" ?gw lines_parser "[]" ?es ?d
        "[''https://storacha.link/ipfs/Qroot/'']" "const_gateway GetError" lines_parser
        "[''https://storacha.link/ipfs/Qroot/'']" "[CallLookup ''a.txt'', CallReaddir]" 1]
      Readdir_idempotent[of ?d "const_gateway GetError" lines_parser
        "[''https://storacha.link/ipfs/Qroot/'']" ?es ?d
        "[''https://storacha.link/ipfs/Qroot/'']" "const_gateway GetError" lines_parser
        "[''https://storacha.link/ipfs/Qroot/'']" "[CallLookup ''a.txt'', CallReaddir]" 1]
    by simp
qed

text \<open>
  C10. When the request, the body read and the document parse of a \<^verbatim>\<open>Readdir\<close> all
  succeed and no entry is extracted, the call returns the empty listing with success and
  the node is left cached with the empty listing; every later \<^verbatim>\<open>Readdir\<close> on it, whatever
  the gateway would answer, returns the empty listing again and issues no request.
\<close>

theorem Readdir_empty_listing_cached:
  assumes "\<not> cached sfs"
    and "gw (length log) (''https://storacha.link/ipfs/'' @ cid sfs @ ''/'') = Response st bdy False"
    and "parse bdy = Some hrefs"
    and "Each (cid sfs) hrefs [] = []"
  shows "Readdir gw parse sfs log =
           ((Some [], 0), sfs\<lparr>cache := [], cached := True\<rparr>,
            log @ [''https://storacha.link/ipfs/'' @ cid sfs @ ''/''])
       \<and> Readdir gw2 parse2 (sfs\<lparr>cache := [], cached := True\<rparr>) log2 =
           ((Some [], 0), sfs\<lparr>cache := [], cached := True\<rparr>, log2)
       \<and> foldl (dir_step gw2 parse2) (sfs\<lparr>cache := [], cached := True\<rparr>, log2)
             (replicate n CallReaddir) = (sfs\<lparr>cache := [], cached := True\<rparr>, log2)"
proof -
  let ?d = "sfs\<lparr>cache := [], cached := True\<rparr>"
  have c: "cached ?d" by simp
  have first: "Readdir gw parse sfs log =
      ((Some [], 0), ?d, log @ [''https://storacha.link/ipfs/'' @ cid sfs @ ''/''])"
    using Readdir_fetch_ok[of sfs gw log st bdy parse hrefs] assms by simp
  have again: "Readdir gw2 parse2 ?d log2 = ((Some [], 0), ?d, log2)"
    using Readdir_cached[OF c, of gw2 parse2 log2] by simp
  show ?thesis
    using first again Readdir_run_cached[OF c, of gw2 parse2 log2 n] by blast
qed

theorem Readdir_empty_listing_cached_witness:
  "Readdir (const_gateway (Response 200 ''../'' False)) lines_parser (NewStorachaFS ''Qroot'' False) []
     = ((Some [], 0), \<lparr>cid = ''Qroot'', debug = False, cache = [], cached = True\<rparr>,
        [''https://storacha.link/ipfs/Qroot/''])
   \<and> Readdir (const_gateway GetError) lines_parser
        \<lparr>cid = ''Qroot'', debug = False, cache = [], cached = True\<rparr>
        [''https://storacha.link/ipfs/Qroot/'']
     = ((Some [], 0), \<lparr>cid = ''Qroot'', debug = False, cache = [], cached = True\<rparr>,
        [''https://storacha.link/ipfs/Qroot/''])"
proof -
  have h1: "\<not> cached (NewStorachaFS ''Qroot'' False)"
    by (simp add: NewStorachaFS_def)
  have h2: "const_gateway (Response 200 ''../'' False) (length ([] :: requests))
      (''https://storacha.link/ipfs/'' @ cid (NewStorachaFS ''Qroot'' False) @ ''/'')
      = Response 200 ''../'' False"
    by (simp add: const_gateway_def)
  have h3: "lines_parser ''../'' = Some [''../'']"
    by (simp add: lines_parser_def)
  have h4: "Each (cid (NewStorachaFS ''Qroot'' False)) [''../''] [] = []"
    by (simp add: readdir_anchor_def)
  show ?thesis
    using h1 h2 h3 h4
      Readdir_empty_listing_cached[of "NewStorachaFS ''Qroot'' False"
        "const_gateway (Response 200 ''../'' False)" "[]" 200 "''../''" lines_parser "[''../'']"
        "const_gateway GetError" lines_parser "[''https://storacha.link/ipfs/Qroot/'']" 1]
    by (simp add: NewStorachaFS_def)
qed

text \<open>
  C4, as the source has it. The status code of a response is never inspected. At the
  concrete input below the gateway answers 404 with a body that holds one anchor, and
  \<^verbatim>\<open>Readdir\<close> returns the one-entry listing with success (and \<^verbatim>\<open>Lookup\<close> resolves the
  name), where the claim asks for the not-found error.
\<close>

theorem Readdir_lists_non_success_status:
  "fst (Readdir (const_gateway (Response 404 ''/ipfs/CID1/a.txt'' False)) lines_parser
        (NewStorachaFS ''Qroot'' False) [])
     = (Some [\<lparr>Ino = hashInode ''Qroot/a.txt'', Name = ''a.txt'', Mode = S_IFREG OR 0x124\<rparr>], 0)
   \<and> fst (Readdir (const_gateway (Response 404 ''/ipfs/CID1/a.txt'' False)) lines_parser
        (NewStorachaFS ''Qroot'' False) []) \<noteq> (None, ENOENT)
   \<and> snd (fst (Lookup (const_gateway (Response 404 ''/ipfs/CID1/a.txt'' False)) lines_parser
        (NewStorachaFS ''Qroot'' False) ''a.txt'' [])) = 0"
  by (simp add: ex_Readdir ex_Lookup_fresh ENOENT_def)

text \<open>
  C4, amended. A transport failure of the single request makes the listing fetch fail
  with \<^verbatim>\<open>ENOENT\<close> (which is not 0): \<^verbatim>\<open>Readdir\<close> on a node without a loaded listing and
  \<^verbatim>\<open>Lookup\<close> return nil, issue exactly that one request and leave the node as it was.
  The outcome of a fetch does not depend on the status code: two gateways whose
  responses differ only in the status give the same result.
\<close>

theorem listing_fetch_failure:
  "(\<not> cached sfs \<and> gw (length log) (''https://storacha.link/ipfs/'' @ cid sfs @ ''/'') = GetError \<longrightarrow>
       Readdir gw parse sfs log
         = ((None, ENOENT), sfs, log @ [''https://storacha.link/ipfs/'' @ cid sfs @ ''/'']))
   \<and> (gw (length log) (''https://storacha.link/ipfs/'' @ cid sfs @ ''/'') = GetError \<longrightarrow>
       Lookup gw parse sfs nm log
         = ((None, ENOENT), log @ [''https://storacha.link/ipfs/'' @ cid sfs @ ''/'']))
   \<and> (gw (length log) (''https://storacha.link/ipfs/'' @ cid sfs @ ''/'') = Response st bdy rf
        \<and> gw' (length log) (''https://storacha.link/ipfs/'' @ cid sfs @ ''/'') = Response st' bdy rf \<longrightarrow>
       Readdir gw parse sfs log = Readdir gw' parse sfs log
       \<and> Lookup gw parse sfs nm log = Lookup gw' parse sfs nm log)
   \<and> ENOENT \<noteq> 0"
  by (simp add: Readdir_def Lookup_def http_Get_def Let_def ENOENT_def)

theorem listing_fetch_failure_witness:
  "Readdir (const_gateway GetError) lines_parser (NewStorachaFS ''Qroot'' False) []
     = ((None, ENOENT), NewStorachaFS ''Qroot'' False, [''https://storacha.link/ipfs/Qroot/''])
   \<and> Lookup (const_gateway GetError) lines_parser (NewStorachaFS ''Qroot'' False) ''a.txt'' []
     = ((None, ENOENT), [''https://storacha.link/ipfs/Qroot/''])
   \<and> Readdir (const_gateway (Response 200 ''/ipfs/CID1/a.txt'' False)) lines_parser
        (NewStorachaFS ''Qroot'' False) []
     = Readdir (const_gateway (Response 404 ''/ipfs/CID1/a.txt'' False)) lines_parser
        (NewStorachaFS ''Qroot'' False) []
   \<and> Lookup (const_gateway (Response 200 ''/ipfs/CID1/a.txt'' False)) lines_parser
        (NewStorachaFS ''Qroot'' False) ''a.txt'' []
     = Lookup (const_gateway (Response 404 ''/ipfs/CID1/a.txt'' False)) lines_parser
        (NewStorachaFS ''Qroot'' False) ''a.txt'' []"
  using listing_fetch_failure[of "NewStorachaFS ''Qroot'' False" "const_gateway GetError" "[]"
      lines_parser "''a.txt''" 0 "[]" False "const_gateway GetError" 0]
    listing_fetch_failure[of "NewStorachaFS ''Qroot'' False"
      "const_gateway (Response 200 ''/ipfs/CID1/a.txt'' False)" "[]"
      lines_parser "''a.txt''" 200 "''/ipfs/CID1/a.txt''" False
      "const_gateway (Response 404 ''/ipfs/CID1/a.txt'' False)" 404]
  by (simp add: const_gateway_def NewStorachaFS_def)




section \<open>Stable identifiers\<close>

lemma Ino_Each:
  "map Ino (Each dcid hrefs []) = map (\<lambda>e. hashInode (dcid @ ''/'' @ Name e)) (Each dcid hrefs [])"
  by (simp add: Each_classify entry_of_def)

text \<open>
  C1, evaluated on the source. \<^verbatim>\<open>Readdir\<close> hashes the CID of the directory it lists with
  the entry's name; \<^verbatim>\<open>Lookup\<close> hashes the CID of the child, read from the anchor, with
  the name. For the directory \<^verbatim>\<open>Qroot\<close> whose listing has the anchor
  \<^verbatim>\<open>/ipfs/CID1/a.txt\<close>, the entry \<^verbatim>\<open>a.txt\<close> is reported with the hash of \<^verbatim>\<open>Qroot/a.txt\<close> and
  looked up with the hash of \<^verbatim>\<open>CID1/a.txt\<close>, and the two identifiers differ.
\<close>

theorem Readdir_Lookup_ino_differ:
  "map Ino (Each dcid hrefs [])
     = map (\<lambda>e. hashInode (dcid @ ''/'' @ Name e)) (Each dcid hrefs [])
   \<and> map_option (map (\<lambda>e. (Name e, Ino e)))
      (fst (fst (Readdir (const_gateway (Response 200 ''/ipfs/CID1/a.txt'' False)) lines_parser
         (NewStorachaFS ''Qroot'' False) [])))
     = Some [(''a.txt'', hashInode ''Qroot/a.txt'')]
   \<and> map_option stable_Ino
      (fst (fst (Lookup (const_gateway (Response 200 ''/ipfs/CID1/a.txt'' False)) lines_parser
         (NewStorachaFS ''Qroot'' False) ''a.txt'' [])))
     = Some (hashInode ''CID1/a.txt'')
   \<and> hashInode ''Qroot/a.txt'' = 14990959204154675998
   \<and> hashInode ''CID1/a.txt'' = 5285905567359686076
   \<and> hashInode ''Qroot/a.txt'' \<noteq> hashInode ''CID1/a.txt''"
proof -
  have h1: "hashInode ''Qroot/a.txt'' = 14990959204154675998"
    by (simp add: hashInode_def offset64_def prime64_def)
  have h2: "hashInode ''CID1/a.txt'' = 5285905567359686076"
    by (simp add: hashInode_def offset64_def prime64_def)
  show ?thesis
    unfolding ex_Readdir ex_Lookup_fresh using h1 h2 Ino_Each[of dcid hrefs] by simp
qed

section \<open>File nodes\<close>

text \<open>What \<^verbatim>\<open>Open\<close> does on a transport failure and on a node that holds a payload: the
  failure leaves the payload absent, so that the next \<^verbatim>\<open>Open\<close> fetches again, and a stored
  payload is never fetched again or replaced by any call on the node.\<close>

lemma Open_transport_failure:
  assumes "data sf = None"
    and "gw (length log) (''https://storacha.link/ipfs/'' @ file_cid sf) = GetError"
  shows "Open gw sf log = ((0, ENOENT), sf, log @ [''https://storacha.link/ipfs/'' @ file_cid sf])"
  using assms by (simp add: Open_def http_Get_def)

lemma Open_fetched: "data sf = Some p \<Longrightarrow> Open gw sf log = ((FOPEN_KEEP_CACHE, 0), sf, log)"
  by (simp add: Open_def)

lemma file_run_fetched:
  "data sf = Some p \<Longrightarrow> foldl (file_step gw) (sf, log) calls = (sf, log)"
proof (induction calls)
  case Nil
  then show ?case by simp
next
  case (Cons call calls)
  then show ?case by (cases call) (simp_all add: Open_fetched)
qed

text \<open>
  C3, evaluated on the source. The gateway answers, and reading the body fails after the
  two bytes \<^verbatim>\<open>he\<close>. \<^verbatim>\<open>Open\<close> discards the read error: it returns success and stores the
  two bytes as the payload, so that every later \<^verbatim>\<open>Open\<close> finds a payload and fetches
  nothing. \<^verbatim>\<open>Readdir\<close>, given the same response, tests the read error and fails.
\<close>

theorem Open_keeps_partial_body:
  "Open (const_gateway (Response 200 ''he'' True)) (NewStorachaFile ''a.txt'' ''CID1'' False) []
     = ((FOPEN_KEEP_CACHE, 0),
        \<lparr>name = ''a.txt'', file_cid = ''CID1'', data = Some ''he'', file_debug = False\<rparr>,
        [''https://storacha.link/ipfs/CID1''])
   \<and> Open gw2 \<lparr>name = ''a.txt'', file_cid = ''CID1'', data = Some ''he'', file_debug = False\<rparr> log2
     = ((FOPEN_KEEP_CACHE, 0),
        \<lparr>name = ''a.txt'', file_cid = ''CID1'', data = Some ''he'', file_debug = False\<rparr>, log2)
   \<and> fst (Readdir (const_gateway (Response 200 ''he'' True)) lines_parser
          (NewStorachaFS ''Qroot'' False) []) = (None, ENOENT)"
  by (simp add: Open_def Readdir_def http_Get_def const_gateway_def NewStorachaFile_def
      NewStorachaFS_def)

lemma slice_in_range:
  "0 \<le> lo \<Longrightarrow> lo \<le> hi \<Longrightarrow> hi \<le> int (length s) \<Longrightarrow>
     slice s lo hi = Returns (take (nat (hi - lo)) (drop (nat lo) s))"
  by (simp add: slice_def)

lemma Read_fetched:
  assumes "data sf = Some p" and "0 \<le> off"
  shows "Read sf n off =
     (if int (length p) \<le> off then Returns ([], 0)
      else Returns (take (nat (min (off + int n) (int (length p)) - off)) (drop (nat off) p), 0))"
  using assms by (auto simp: Read_def len_data_def slice_def Let_def min_def)

text \<open>
  C5, as the source has it. The offset is a signed integer, and a negative offset passes
  the end-of-file test and reaches the slice expression, which panics: with a payload of
  ten bytes, \<^verbatim>\<open>Read\<close> at offset \<open>-1\<close> does not return.
\<close>

theorem Read_negative_offset_panics:
  "Read \<lparr>name = ''a.txt'', file_cid = ''CID1'', data = Some ''0123456789'', file_debug = False\<rparr> 5 (- 1)
     = Panics"
  by (simp add: Read_def len_data_def slice_def)

text \<open>
  C5, amended. For a file node with fetched payload \<open>p\<close>, every offset that is not
  negative and every length: at or past the end \<^verbatim>\<open>Read\<close> returns the empty result with
  success; before the end it returns, with success, the bytes of \<open>p\<close> from the offset up
  to the smaller of offset plus length and the payload's length. With ten bytes,
  reading 5 at offset 10 is empty and reading 10 at offset 7 gives the last three bytes.
\<close>

theorem Read_slice:
  assumes "data sf = Some p" and "0 \<le> off"
  shows "(int (length p) \<le> off \<longrightarrow> Read sf n off = Returns ([], 0))
       \<and> (off < int (length p) \<longrightarrow>
            (\<exists>bs. Read sf n off = Returns (bs, 0)
               \<and> bs = take (nat (min (off + int n) (int (length p)) - off)) (drop (nat off) p)
               \<and> length bs = min n (length p - nat off)
               \<and> (\<forall>i<length bs. bs ! i = p ! (nat off + i))))
       \<and> (length p = 10 \<longrightarrow>
            Read sf 5 10 = Returns ([], 0)
            \<and> Read sf 10 7 = Returns (drop 7 p, 0) \<and> length (drop 7 p) = 3)"
proof (intro conjI impI)
  assume "int (length p) \<le> off"
  then show "Read sf n off = Returns ([], 0)"
    using Read_fetched[OF assms, of n] by simp
next
  assume lt: "off < int (length p)"
  let ?bs = "take (nat (min (off + int n) (int (length p)) - off)) (drop (nat off) p)"
  have r: "Read sf n off = Returns (?bs, 0)"
    using Read_fetched[OF assms, of n] lt by simp
  have len: "length ?bs = min n (length p - nat off)"
    using assms(2) lt by (auto simp: min_def)
  have nth: "\<forall>i<length ?bs. ?bs ! i = p ! (nat off + i)"
    using assms(2) lt by simp
  show "\<exists>bs. Read sf n off = Returns (bs, 0)
               \<and> bs = ?bs
               \<and> length bs = min n (length p - nat off)
               \<and> (\<forall>i<length bs. bs ! i = p ! (nat off + i))"
    using r len nth by blast
next
  assume l: "length p = 10"
  show "Read sf 5 10 = Returns ([], 0)"
    using assms(1) l by (simp add: Read_def len_data_def)
next
  assume l: "length p = 10"
  show "Read sf 10 7 = Returns (drop 7 p, 0)"
    using assms(1) l by (simp add: Read_def len_data_def slice_def)
next
  assume l: "length p = 10"
  then show "length (drop 7 p) = 3" by simp
qed

theorem Read_slice_witness:
  "Read \<lparr>name = ''a.txt'', file_cid = ''CID1'', data = Some ''0123456789'', file_debug = False\<rparr> 10 7
     = Returns (''789'', 0)
   \<and> Read \<lparr>name = ''a.txt'', file_cid = ''CID1'', data = Some ''0123456789'', file_debug = False\<rparr> 5 10
     = Returns ([], 0)
   \<and> Read \<lparr>name = ''a.txt'', file_cid = ''CID1'', data = Some ''0123456789'', file_debug = False\<rparr> 4 2
     = Returns (''2345'', 0)"
  using Read_slice[of "\<lparr>name = ''a.txt'', file_cid = ''CID1'', data = Some ''0123456789'', file_debug = False\<rparr>"
      "''0123456789''" 7 10]
    Read_slice[of "\<lparr>name = ''a.txt'', file_cid = ''CID1'', data = Some ''0123456789'', file_debug = False\<rparr>"
      "''0123456789''" 10 5]
    Read_slice[of "\<lparr>name = ''a.txt'', file_cid = ''CID1'', data = Some ''0123456789'', file_debug = False\<rparr>"
      "''0123456789''" 2 4]
  by simp

lemma Read_errno_zero: "Read sf n off = Returns (bs, e) \<Longrightarrow> e = 0"
  by (auto simp: Read_def Let_def split: if_splits go.splits)

lemma Read_returns: "0 \<le> off \<Longrightarrow> \<exists>bs. Read sf n off = Returns (bs, 0)"
  by (cases "data sf") (auto simp: Read_def len_data_def slice_def Let_def)

text \<open>
  C9, as the source has it. On a node whose payload was never fetched, \<^verbatim>\<open>Read\<close> at a
  negative offset reaches the slice expression on the nil slice and panics: it does not
  return success.
\<close>

theorem Read_unfetched_negative_offset_panics:
  "Read (NewStorachaFile ''CID1'' ''a.txt'' False) 5 (- 1) = Panics"
  by (simp add: Read_def len_data_def slice_def NewStorachaFile_def)

text \<open>
  C9, amended. \<^verbatim>\<open>Read\<close> never returns an errno other than 0, whatever the node, the
  offset and the length. For every offset that is not negative it returns with success,
  also on a node whose payload was never fetched, where the result is empty.
\<close>

theorem Read_never_errno:
  "(Read sf n off = Returns (bs, e) \<longrightarrow> e = 0)
   \<and> (0 \<le> off \<longrightarrow> (\<exists>r. Read sf n off = Returns (r, 0)))
   \<and> (data sf = None \<and> 0 \<le> off \<longrightarrow> Read sf n off = Returns ([], 0))"
  using Read_errno_zero[of sf n off bs e] Read_returns[of off sf n]
  by (auto simp: Read_def len_data_def)

theorem Read_never_errno_witness:
  "Read (NewStorachaFile ''CID1'' ''a.txt'' False) 5 0 = Returns ([], 0)
   \<and> (\<exists>r. Read \<lparr>name = ''CID1'', file_cid = ''a.txt'', data = Some ''hello'', file_debug = False\<rparr> 100 3
          = Returns (r, 0))"
  using Read_never_errno[of "NewStorachaFile ''CID1'' ''a.txt'' False" 5 0 "[]" 0]
    Read_never_errno[of "\<lparr>name = ''CID1'', file_cid = ''a.txt'', data = Some ''hello'', file_debug = False\<rparr>"
      100 3 "''lo''" 0]
  by (simp add: NewStorachaFile_def)

lemma file_step_Getattr:
  "foldl (file_step gw) (sf, log) (map (\<lambda>q. FileGetattr (fst q) (snd q)) qs) = (sf, log)"
  by (induction qs) simp_all

text \<open>
  C8. Every \<^verbatim>\<open>Getattr\<close> on a file node succeeds and reports the regular-file type with
  the permission bits 0444 (read-only). The size is the length of the payload once one
  is stored (as a number whenever that length fits 64 bits) and 0 before. Any number of
  attribute queries leaves the node and the request log as they are: none fetches.
\<close>

theorem Getattr_file:
  "snd (Getattr sf out now) = 0
   \<and> attr_Mode (fst (Getattr sf out now)) AND S_IFMT = S_IFREG
   \<and> attr_Mode (fst (Getattr sf out now)) AND 0x1FF = 0x124
   \<and> (data sf = Some p \<longrightarrow> attr_Size (fst (Getattr sf out now)) = of_nat (length p))
   \<and> (data sf = Some p \<and> length p < 2 ^ 64 \<longrightarrow>
         unat (attr_Size (fst (Getattr sf out now))) = length p)
   \<and> (data sf = None \<longrightarrow> attr_Size (fst (Getattr sf out now)) = 0)
   \<and> foldl (file_step gw) (sf, log) (map (\<lambda>q. FileGetattr (fst q) (snd q)) qs) = (sf, log)"
proof -
  have m1: "(S_IFREG OR 0x124) AND S_IFMT = S_IFREG"
    by (simp add: S_IFREG_def S_IFMT_def)
  have m2: "(S_IFREG OR 0x124) AND 0x1FF = (0x124 :: 32 word)"
    by (simp add: S_IFREG_def)
  have sz: "length p < 2 ^ 64 \<Longrightarrow> unat (of_nat (length p) :: 64 word) = length p"
    by (simp add: unat_of_nat)
  show ?thesis
    using m1 m2 sz by (simp add: Getattr_def len_data_def file_step_Getattr)
qed

theorem Getattr_file_witness:
  "attr_Size (fst (Getattr \<lparr>name = ''CID1'', file_cid = ''a.txt'', data = Some ''hello'', file_debug = False\<rparr>
        \<lparr>attr_Mode = 0, attr_Size = 0, attr_Mtime = 0, attr_Atime = 0, attr_Ctime = 0\<rparr> 1700000000)) = 5
   \<and> unat (attr_Size (fst (Getattr \<lparr>name = ''CID1'', file_cid = ''a.txt'', data = Some ''hello'', file_debug = False\<rparr>
        \<lparr>attr_Mode = 0, attr_Size = 0, attr_Mtime = 0, attr_Atime = 0, attr_Ctime = 0\<rparr> 1700000000))) = 5
   \<and> attr_Size (fst (Getattr (NewStorachaFile ''CID1'' ''a.txt'' False)
        \<lparr>attr_Mode = 0, attr_Size = 0, attr_Mtime = 0, attr_Atime = 0, attr_Ctime = 0\<rparr> 1700000000)) = 0"
  using Getattr_file[of "\<lparr>name = ''CID1'', file_cid = ''a.txt'', data = Some ''hello'', file_debug = False\<rparr>"
      "\<lparr>attr_Mode = 0, attr_Size = 0, attr_Mtime = 0, attr_Atime = 0, attr_Ctime = 0\<rparr>" 1700000000
      "''hello''" "const_gateway GetError" "[]" "[]"]
    Getattr_file[of "NewStorachaFile ''CID1'' ''a.txt'' False"
      "\<lparr>attr_Mode = 0, attr_Size = 0, attr_Mtime = 0, attr_Atime = 0, attr_Ctime = 0\<rparr>" 1700000000
      "[]" "const_gateway GetError" "[]" "[]"]
  by (simp add: NewStorachaFile_def)

end
